theory Spec2Isabelle
  imports Main "HOL-Library.AList" "HOL-Library.Char_ord" "HOL-Library.List_Lexorder"
begin

section \<open>Values, files and effects\<close>

text \<open>
  The program is a single Python file, \<^verbatim>\<open>chronosonic.py\<close>. The values it moves between
  search results, the queue and the files on disk are what \<^verbatim>\<open>json.loads\<close> builds: \<^verbatim>\<open>None\<close>,
  booleans, numbers, strings, lists and dictionaries. A dictionary keeps the order in which its
  keys were inserted, so it is an association list (of distinct keys). Numbers are integers: no operation modelled
  here computes with a fractional number.
\<close>

datatype json =
    JNull
  | JBool bool
  | JNum int
  | JStr string
  | JArr "json list"
  | JObj "(string \<times> json) list"

type_synonym dict = "(string \<times> json) list"

text \<open>\<^verbatim>\<open>d.get(k)\<close> and \<^verbatim>\<open>d.get(k, default)\<close>: the first binding of the key, else the default.\<close>

definition dget :: "dict \<Rightarrow> string \<Rightarrow> json \<Rightarrow> json" where
  "dget d k dflt = (case map_of d k of None \<Rightarrow> dflt | Some v \<Rightarrow> v)"

text \<open>Python's truth value of an object, as \<^verbatim>\<open>if x\<close>, \<^verbatim>\<open>not x\<close> and \<^verbatim>\<open>x or y\<close> read it.\<close>

fun truthy :: "json \<Rightarrow> bool" where
  "truthy JNull = False"
| "truthy (JBool b) = b"
| "truthy (JNum n) = (n \<noteq> 0)"
| "truthy (JStr s) = (s \<noteq> [])"
| "truthy (JArr xs) = (xs \<noteq> [])"
| "truthy (JObj kvs) = (kvs \<noteq> [])"

definition py_or :: "json \<Rightarrow> json \<Rightarrow> json" where
  "py_or x y = (if truthy x then x else y)"

text \<open>
  \<^verbatim>\<open>x[:n]\<close> is defined on strings and lists and raises on every other value; \<^verbatim>\<open>hash(x)\<close>
  raises on lists and dictionaries.
\<close>

fun sliceable :: "json \<Rightarrow> bool" where
  "sliceable (JStr s) = True"
| "sliceable (JArr xs) = True"
| "sliceable _ = False"

fun hashable :: "json \<Rightarrow> bool" where
  "hashable (JArr xs) = False"
| "hashable (JObj kvs) = False"
| "hashable _ = True"

text \<open>
  A file holds either text that \<^verbatim>\<open>json.loads\<close> accepts, represented by the value it parses to
  (\<^verbatim>\<open>json.dumps\<close> writes such text), or anything else: text that is not JSON, bytes that are not
  UTF-8, downloaded media. The file system maps a path to the content of the file there.
\<close>

datatype content = Json json | Garbage

type_synonym files = "string \<rightharpoonup> content"

definition PLAYLIST_DB :: string where
  "PLAYLIST_DB = ''playlists.json''"

definition SEARCH_BATCH :: nat where
  "SEARCH_BATCH = 10"

text \<open>
  The \<^verbatim>\<open>Track\<close> dataclass. Python stores in a field whatever the constructor is given, so the
  fields hold values; \<^verbatim>\<open>__post_init__\<close> replaces a \<^verbatim>\<open>None\<close> format list by the empty list.
\<close>

record track =
  track_id :: json
  title :: json
  uploader :: json
  webpage_url :: json
  duration :: json
  thumbnail :: json
  formats :: json
  entry :: json

definition Track :: "json \<Rightarrow> json \<Rightarrow> json \<Rightarrow> json \<Rightarrow> json \<Rightarrow> json \<Rightarrow> json \<Rightarrow> json \<Rightarrow> track" where
  "Track i t u w d th f e =
     \<lparr>track_id = i, title = t, uploader = u, webpage_url = w, duration = d, thumbnail = th,
      formats = (if f = JNull then JArr [] else f), entry = e\<rparr>"

text \<open>
  What a handler does beyond changing the widget's fields is recorded, in order, as a list of
  effects: a log line, a status-bar message (the f-string's template and the values it
  interpolates), a worker thread started with its job, a call to the media player or to a
  control. The player and the controls are Qt objects outside the program.
\<close>

datatype job =
    SearchBatch string nat nat
  | FetchThumbnail json
  | ExtractOrDownload track int

datatype control = PlayPauseBtn | PositionSlider | MoreBtn | SearchBtn

datatype effect =
    LogMsg string
  | ShowStatus string "json list" nat
  | StartWorker job
  | SetEnabled control bool
  | SetText control string
  | PlayerSetPosition int
  | PlayerSetSource bool string
  | PlayerPlay
  | ApplySpeedSetting
  | SliderSetValue int int
  | UpdateTimeLabel int int
  | SetWindowTitle string "json list"
  | LoadNowPlayingThumb json
  | ComboItems "string list"

section \<open>Persistence: \<^verbatim>\<open>load_json_file\<close> and \<^verbatim>\<open>save_json_file\<close>\<close>

text \<open>
  \<^verbatim>\<open>load_json_file(path, default=None)\<close>: when the file exists, its text is read and parsed
  inside \<^verbatim>\<open>try\<close>; any exception is logged and control falls through to the default, which is
  the argument unless that is \<^verbatim>\<open>None\<close>, and then the empty dictionary. The function is given
  the file system and returns it with the value, so that what it leaves on disk can be stated.
\<close>

definition load_json_file :: "string \<Rightarrow> json \<Rightarrow> files \<Rightarrow> json \<times> files \<times> effect list" where
  "load_json_file path dflt fs =
     (let fallback = (if dflt \<noteq> JNull then dflt else JObj []) in
      case fs path of
        None \<Rightarrow> (fallback, fs, [])
      | Some (Json v) \<Rightarrow> (v, fs, [])
      | Some Garbage \<Rightarrow> (fallback, fs, [LogMsg ''Failed to read {path}'']))"

text \<open>
  \<^verbatim>\<open>save_json_file(path, data)\<close>: the write is inside \<^verbatim>\<open>try\<close>; when it raises (the path cannot
  be written, which the predicate \<open>w\<close> of the environment decides) the failure is logged and
  the file is as before.
\<close>

definition save_json_file :: "(string \<Rightarrow> bool) \<Rightarrow> string \<Rightarrow> json \<Rightarrow> files \<Rightarrow> files \<times> effect list" where
  "save_json_file w path data fs =
     (if w path then (fs(path \<mapsto> Json data), [])
      else (fs, [LogMsg ''Failed to save {path}'']))"

section \<open>The widget's state\<close>

text \<open>
  The fields that \<^verbatim>\<open>setup_data\<close> creates on \<^verbatim>\<open>YTStreamerWidget\<close>, and the content of the two
  list widgets the handlers read back: the \<^verbatim>\<open>UserRole\<close> data of each row of the queue list with
  its current row (\<open>-1\<close> when there is none), and the rows of the result list.
\<close>

record streamer =
  search_results :: "dict list"
  search_offset :: nat
  query :: string
  queue :: "track list"
  queue_index :: int
  shuffle_on :: bool
  repeat_mode :: nat
  current_temp_file :: "string option"
  duration_ms :: int
  updating_slider :: bool
  point_a :: "int option"
  point_b :: "int option"
  queue_list :: "dict list"
  queue_row :: int
  results_list :: "dict list"

definition setup_data :: streamer where
  "setup_data =
     \<lparr>search_results = [], search_offset = 0, query = [], queue = [], queue_index = -1,
      shuffle_on = False, repeat_mode = 0, current_temp_file = None, duration_ms = 0,
      updating_slider = False, point_a = None, point_b = None,
      queue_list = [], queue_row = -1, results_list = []\<rparr>"

text \<open>
  A handler that lets an exception escape is told apart from one that returns. With the
  outcome come the state and the effects up to the return or the raise.
\<close>

datatype outcome = Returned | Raised

section \<open>Queue operations\<close>

text \<open>
  \<^verbatim>\<open>_queue_append(entry)\<close>: builds the track from the entry; when the track has a thumbnail,
  computes the name of its cached icon with \<^verbatim>\<open>hash(track.thumbnail)\<close>, which raises on a list
  or a dictionary before anything is appended; then adds a row carrying the entry to the queue
  list and the track to the queue, moves the cursor from \<open>-1\<close> to \<open>0\<close>, and enables the play
  button. (Setting the row's icon is decoration inside its own \<^verbatim>\<open>try\<close> and is left out.)
\<close>

definition track_of_entry :: "dict \<Rightarrow> track" where
  "track_of_entry e =
     Track (dget e ''id'' (JStr [])) (dget e ''title'' (JStr [])) (dget e ''uploader'' (JStr []))
           (dget e ''webpage_url'' (JStr [])) (dget e ''duration'' (JNum 0))
           (dget e ''thumbnail'' JNull) (dget e ''formats'' (JArr [])) (dget e ''entry'' JNull)"

definition queue_append :: "dict \<Rightarrow> streamer \<Rightarrow> outcome \<times> streamer \<times> effect list" where
  "queue_append e s =
     (let t = track_of_entry e in
      if truthy (thumbnail t) \<and> \<not> hashable (thumbnail t) then (Raised, s, [])
      else
        (Returned,
         s\<lparr>queue_list := queue_list s @ [e],
           queue := queue s @ [t],
           queue_index := (if queue_index s = -1 then 0 else queue_index s)\<rparr>,
         [SetEnabled PlayPauseBtn True]))"

text \<open>
  \<^verbatim>\<open>rebuild_queue_from_widget()\<close>, called after a row was dragged: the queue is rebuilt from
  the rows (without the \<^verbatim>\<open>entry\<close> field), and the cursor adopts the list's current row when
  there is one.
\<close>

definition track_of_row :: "dict \<Rightarrow> track" where
  "track_of_row e =
     Track (dget e ''id'' (JStr [])) (dget e ''title'' (JStr [])) (dget e ''uploader'' (JStr []))
           (dget e ''webpage_url'' (JStr [])) (dget e ''duration'' (JNum 0))
           (dget e ''thumbnail'' JNull) (dget e ''formats'' (JArr [])) JNull"

definition rebuild_queue_from_widget :: "streamer \<Rightarrow> streamer" where
  "rebuild_queue_from_widget s =
     (let s1 = s\<lparr>queue := map track_of_row (queue_list s)\<rparr> in
      if queue_row s \<ge> 0 then s1\<lparr>queue_index := queue_row s\<rparr> else s1)"

text \<open>
  \<^verbatim>\<open>_prepare_and_play(track, idx)\<close> logs, disables the two transport controls, shows
  \<^verbatim>\<open>f"Loading: {track.title[:50]}..."\<close> and starts a worker thread that resolves the track
  (\<^verbatim>\<open>_extract_or_download\<close>); the worker's completion calls \<^verbatim>\<open>_on_url_ready\<close>, which starts
  playback. Slicing a title that is neither a string nor a list raises, after the controls
  were disabled and before the message and the worker.
\<close>

definition prepare_and_play :: "track \<Rightarrow> int \<Rightarrow> outcome \<times> effect list" where
  "prepare_and_play t idx =
     (if sliceable (title t) then
        (Returned,
         [LogMsg ''Preparing: %s'',
          SetEnabled PlayPauseBtn False,
          SetEnabled PositionSlider False,
          ShowStatus ''Loading: {track.title[:50]}...'' [title t] 0,
          StartWorker (ExtractOrDownload t idx)])
      else
        (Raised,
         [LogMsg ''Preparing: %s'',
          SetEnabled PlayPauseBtn False,
          SetEnabled PositionSlider False]))"

text \<open>
  \<^verbatim>\<open>play_index(idx)\<close>: nothing when the index is out of bounds; else the cursor is assigned
  and then the track is prepared.
\<close>

definition play_index :: "int \<Rightarrow> streamer \<Rightarrow> outcome \<times> streamer \<times> effect list" where
  "play_index idx s =
     (if idx < 0 \<or> idx \<ge> int (length (queue s)) then (Returned, s, [])
      else
        case prepare_and_play (queue s ! nat idx) idx of
          (out, es) \<Rightarrow> (out, s\<lparr>queue_index := idx\<rparr>, es))"

text \<open>
  \<^verbatim>\<open>play_next()\<close>. \<^verbatim>\<open>randrange(0, len(self.queue))\<close> is the reduction of a random number
  \<open>rnd\<close>, given by the environment, to the range. The repeat modes are Off \<open>0\<close>, All \<open>1\<close>
  and One \<open>2\<close>.
\<close>

definition play_next :: "nat \<Rightarrow> streamer \<Rightarrow> outcome \<times> streamer \<times> effect list" where
  "play_next rnd s =
     (if queue s = [] then (Returned, s, [])
      else
        let next_idx = (if shuffle_on s then int (rnd mod length (queue s))
                        else queue_index s + 1)
        in if next_idx \<ge> int (length (queue s)) then
             (if repeat_mode s = 1 then play_index 0 s
              else (Returned, s, [ShowStatus ''End of queue'' [] 2000]))
           else play_index next_idx s)"

text \<open>\<^verbatim>\<open>play_prev()\<close>.\<close>

definition play_prev :: "streamer \<Rightarrow> outcome \<times> streamer \<times> effect list" where
  "play_prev s =
     (if queue s = [] then (Returned, s, [])
      else
        let prev_idx = queue_index s - 1
        in if prev_idx < 0 then
             (if repeat_mode s = 1 then play_index (int (length (queue s)) - 1) s
              else play_index 0 s)
           else play_index prev_idx s)"

text \<open>
  \<^verbatim>\<open>load_selected_playlist()\<close>, with the combo box's text \<open>sel\<close>. The store is read, the queue
  and the queue list are cleared, and each item of the playlist is appended. The cursor is
  assigned nowhere but in \<^verbatim>\<open>_queue_append\<close>. Reading \<^verbatim>\<open>.get\<close> of a store or an item that is
  not a dictionary, or iterating a playlist that is not a list, raises, as an append may, and
  nothing catches it.
\<close>

definition entry_of_item :: "dict \<Rightarrow> dict" where
  "entry_of_item it =
     [(''id'', dget it ''id'' JNull),
      (''title'', dget it ''title'' JNull),
      (''uploader'', dget it ''uploader'' JNull),
      (''webpage_url'', dget it ''webpage_url'' JNull),
      (''duration'', dget it ''duration'' (JNum 0)),
      (''thumbnail'', dget it ''thumbnail'' JNull),
      (''formats'', JArr []),
      (''entry'', JNull)]"

fun append_items :: "json list \<Rightarrow> streamer \<Rightarrow> effect list \<Rightarrow> outcome \<times> streamer \<times> effect list" where
  "append_items [] s es = (Returned, s, es)"
| "append_items (JObj it # its) s es =
     (case queue_append (entry_of_item it) s of
        (Returned, s', es') \<Rightarrow> append_items its s' (es @ es')
      | (Raised, s', es') \<Rightarrow> (Raised, s', es @ es'))"
| "append_items (_ # its) s es = (Raised, s, es)"

definition load_selected_playlist ::
    "string \<Rightarrow> files \<Rightarrow> streamer \<Rightarrow> outcome \<times> streamer \<times> files \<times> effect list" where
  "load_selected_playlist sel fs s =
     (if sel = [] \<or> sel = ''Select playlist...'' then
        (Returned, s, fs, [ShowStatus ''Select a playlist first'' [] 2000])
      else
        case load_json_file PLAYLIST_DB (JObj []) fs of (db, fs1, es1) \<Rightarrow>
          (case db of
             JObj d \<Rightarrow>
               (let items = dget d sel (JArr []) in
                if \<not> truthy items then
                  (Returned, s, fs1, es1 @ [ShowStatus ''Playlist is empty'' [] 2000])
                else
                  let s0 = s\<lparr>queue := [], queue_list := [], queue_row := -1\<rparr> in
                  case items of
                    JArr xs \<Rightarrow>
                      (case append_items xs s0 es1 of
                         (Returned, s', es') \<Rightarrow>
                           (Returned, s', fs1,
                            es' @ [ShowStatus ''Loaded {len(items)} tracks from {sel}''
                                     [JNum (int (length xs)), JStr sel] 3000])
                       | (Raised, s', es') \<Rightarrow> (Raised, s', fs1, es'))
                  | _ \<Rightarrow> (Raised, s0, fs1, es1))
           | _ \<Rightarrow> (Raised, s, fs1, es1)))"

section \<open>A/B loop points and position events\<close>

text \<open>
  \<^verbatim>\<open>set_point_a()\<close>, \<^verbatim>\<open>set_point_b()\<close> and \<^verbatim>\<open>clear_ab()\<close>; \<open>pos\<close> is what
  \<^verbatim>\<open>self.player.position()\<close> returns. The guard of \<^verbatim>\<open>set_point_b\<close> is
  \<^verbatim>\<open>if self.point_a and pos <= self.point_a\<close>: its first conjunct is the truth value of the
  point, false for \<^verbatim>\<open>None\<close> and for \<open>0\<close>.
\<close>

definition set_point_a :: "int \<Rightarrow> streamer \<Rightarrow> streamer \<times> effect list" where
  "set_point_a pos s =
     (s\<lparr>point_a := Some pos\<rparr>, [ShowStatus ''Point A set at {self._fmt_ms(pos)}'' [JNum pos] 2000])"

definition set_point_b :: "int \<Rightarrow> streamer \<Rightarrow> streamer \<times> effect list" where
  "set_point_b pos s =
     (if (case point_a s of None \<Rightarrow> False | Some a \<Rightarrow> a \<noteq> 0 \<and> pos \<le> a) then
        (s, [ShowStatus ''Point B must be after Point A'' [] 3000])
      else
        (s\<lparr>point_b := Some pos\<rparr>,
         [ShowStatus ''Point B set at {self._fmt_ms(pos)}'' [JNum pos] 2000]))"

definition clear_ab :: "streamer \<Rightarrow> streamer \<times> effect list" where
  "clear_ab s = (s\<lparr>point_a := None, point_b := None\<rparr>, [ShowStatus ''A-B loop cleared'' [] 2000])"

text \<open>
  \<^verbatim>\<open>on_position_changed(pos_ms)\<close>. \<open>player_dur\<close> is what \<^verbatim>\<open>self.player.duration()\<close> returns and
  \<open>has_window\<close> the truth value of \<^verbatim>\<open>self.window()\<close>. The A/B check comes first and returns.
  The slider value and the percentage are computed in floating point from the position and
  the duration; the effects carry these two. The window title slices the current track's
  title, which raises when that is neither a string nor a list; nothing catches it.
\<close>

definition on_position_changed ::
    "int \<Rightarrow> bool \<Rightarrow> int \<Rightarrow> streamer \<Rightarrow> outcome \<times> streamer \<times> effect list" where
  "on_position_changed player_dur has_window pos_ms s =
     (if point_a s \<noteq> None \<and> point_b s \<noteq> None \<and> pos_ms \<ge> the (point_b s) then
        (Returned, s, [PlayerSetPosition (the (point_a s))])
      else if updating_slider s then (Returned, s, [])
      else
        let dur = (if duration_ms s \<noteq> 0 then duration_ms s else player_dur);
            s1 = (if dur > 0 then s\<lparr>updating_slider := False\<rparr> else s);
            es1 = (if dur > 0 then [SliderSetValue pos_ms dur] else [])
                  @ [UpdateTimeLabel pos_ms dur]
        in
          if dur > 0 \<and> has_window \<and> queue s \<noteq> []
             \<and> 0 \<le> queue_index s \<and> queue_index s < int (length (queue s))
          then
            (let ttl = title (queue s ! nat (queue_index s)) in
             if sliceable ttl then
               (Returned, s1,
                es1 @ [SetWindowTitle ''YT-Streamer [{pct}%] - {title[:50]}''
                         [JNum pos_ms, JNum dur, ttl]])
             else (Raised, s1, es1))
          else (Returned, s1, es1))"

text \<open>
  \<^verbatim>\<open>on_media_status_changed(status)\<close> at the end of the media: the same track again in repeat
  mode One (\<open>2\<close>), else \<^verbatim>\<open>play_next\<close>. Any other status does nothing.
\<close>

definition on_media_status_changed ::
    "bool \<Rightarrow> nat \<Rightarrow> streamer \<Rightarrow> outcome \<times> streamer \<times> effect list" where
  "on_media_status_changed end_of_media rnd s =
     (if end_of_media then
        (case (if repeat_mode s = 2 then play_index (queue_index s) s else play_next rnd s) of
           (out, s', es) \<Rightarrow> (out, s', LogMsg ''Track ended'' # es))
      else (Returned, s, []))"

section \<open>Applying a resolution, and shutdown\<close>

text \<open>
  A worker thread reports \<^verbatim>\<open>(True, result)\<close> or, when its function raised, \<^verbatim>\<open>(False, e)\<close>; the
  pair is a sum, \<open>Inl\<close> carrying the exception's text. The result of \<^verbatim>\<open>_extract_or_download\<close>
  is the tuple \<^verbatim>\<open>(is_local, path_or_url, title, duration_ms, info)\<close>.
\<close>

type_synonym resolution = "bool \<times> string \<times> json \<times> int \<times> json"

text \<open>
  The thumbnail that \<^verbatim>\<open>_on_url_ready\<close> looks up in \<^verbatim>\<open>info\<close>: \<open>None\<close> when the lookup raises
  (\<^verbatim>\<open>info.get("thumbnails")[-1].get("url")\<close> on something that is not a list of dictionaries).
\<close>

definition now_playing_thumb :: "json \<Rightarrow> json option" where
  "now_playing_thumb info =
     (case info of
        JObj d \<Rightarrow>
          (let thumb = dget d ''thumbnail'' JNull; thumbs = dget d ''thumbnails'' JNull in
           if \<not> truthy thumb \<and> truthy thumbs then
             (case thumbs of
                JArr xs \<Rightarrow> (case last xs of JObj t \<Rightarrow> Some (dget t ''url'' JNull) | _ \<Rightarrow> None)
              | _ \<Rightarrow> None)
           else Some thumb)
      | _ \<Rightarrow> Some JNull)"

text \<open>\<^verbatim>\<open>highlight_playing_in_queue(idx)\<close>.\<close>

definition highlight_playing_in_queue :: "int \<Rightarrow> streamer \<Rightarrow> streamer" where
  "highlight_playing_in_queue idx s =
     (if 0 \<le> idx \<and> idx < int (length (queue_list s)) then s\<lparr>queue_row := idx\<rparr> else s)"

text \<open>
  \<^verbatim>\<open>_on_url_ready(ok, result, idx)\<close>. On success the duration and the temporary-file field are
  assigned (the field is overwritten: the path of a local file, or \<^verbatim>\<open>None\<close> for a remote URL),
  then the player is given the source and started. No statement of the handler deletes a file.
  All of this is inside \<^verbatim>\<open>try\<close>: when the thumbnail lookup raises, or the slice of the title
  in the status message does, what was done so far stays done and the handler ends with
  "Playback failed".
\<close>

definition playback_failed :: "effect list" where
  "playback_failed = [LogMsg ''Playback start failed'', ShowStatus ''Playback failed'' [] 5000]"

definition on_url_ready ::
    "bool \<Rightarrow> string + resolution \<Rightarrow> int \<Rightarrow> streamer \<Rightarrow> streamer \<times> effect list" where
  "on_url_ready has_window res idx s =
     (case res of
        Inl e \<Rightarrow>
          (s, [LogMsg ''Prepare failed: %s'',
               ShowStatus ''Failed to load track: {result}'' [JStr e] 5000])
      | Inr (is_local, path_or_url, ttl, dur, info) \<Rightarrow>
          (let s1 = s\<lparr>duration_ms := dur,
                      current_temp_file := (if is_local then Some path_or_url else None)\<rparr> in
           case now_playing_thumb info of
             None \<Rightarrow> (s1, playback_failed)
           | Some thumb \<Rightarrow>
               (highlight_playing_in_queue idx s1,
                (if truthy thumb then [LoadNowPlayingThumb thumb] else [])
                @ [PlayerSetSource is_local path_or_url, ApplySpeedSetting, PlayerPlay,
                   SetEnabled PlayPauseBtn True, SetText PlayPauseBtn ''Pause'',
                   SetEnabled PositionSlider True]
                @ (if sliceable ttl then
                     [ShowStatus ''Playing: {title[:50]}'' [ttl] 3000]
                     @ (if has_window
                        then [SetWindowTitle ''YT-Streamer Pro - {title[:60]}'' [ttl]]
                        else [])
                   else playback_failed))))"

text \<open>
  The download fallback of \<^verbatim>\<open>_extract_or_download\<close> leaves a media file at the path it returns.
\<close>

definition downloaded :: "string \<Rightarrow> files \<Rightarrow> files" where
  "downloaded p fs = fs(p \<mapsto> Garbage)"

text \<open>\<^verbatim>\<open>cleanup()\<close>, called from \<^verbatim>\<open>closeEvent\<close>: unlinks the file the field names, if it exists.\<close>

definition cleanup :: "files \<Rightarrow> streamer \<Rightarrow> files \<times> effect list" where
  "cleanup fs s =
     (case current_temp_file s of
        None \<Rightarrow> (fs, [])
      | Some p \<Rightarrow>
          if p \<noteq> [] \<and> fs p \<noteq> None then (fs(p := None), [LogMsg ''Cleaned up temp file''])
          else (fs, []))"

section \<open>Search batches\<close>

text \<open>
  \<^verbatim>\<open>_do_search_batch(q, batch, offset)\<close> runs in a worker. The extraction library is the
  parameter \<open>extract_info\<close>: asked for the first \<open>n\<close> results of a query
  (\<^verbatim>\<open>ytsearch{n}:{q}\<close>), it returns the \<^verbatim>\<open>info\<close> dictionary or raises. The page is the slice
  \<^verbatim>\<open>entries[offset:offset+batch]\<close>; reading \<^verbatim>\<open>.get\<close> of an entry that is not a dictionary raises.
\<close>

definition process_entry :: "dict \<Rightarrow> dict" where
  "process_entry e =
     [(''id'', dget e ''id'' JNull),
      (''title'', dget e ''title'' JNull),
      (''uploader'', py_or (dget e ''uploader'' JNull) (py_or (dget e ''channel'' JNull) (JStr []))),
      (''webpage_url'', dget e ''webpage_url'' JNull),
      (''duration'', py_or (dget e ''duration'' JNull) (JNum 0)),
      (''thumbnail'', dget e ''thumbnail'' JNull),
      (''formats'', py_or (dget e ''formats'' JNull) (JArr [])),
      (''entry'', JObj e)]"

fun process_page :: "json list \<Rightarrow> string + dict list" where
  "process_page [] = Inr []"
| "process_page (JObj e # es) =
     (case process_page es of Inl x \<Rightarrow> Inl x | Inr ps \<Rightarrow> Inr (process_entry e # ps))"
| "process_page (_ # es) = Inl ''AttributeError''"

definition entries_of :: "dict \<Rightarrow> json" where
  "entries_of info = py_or (dget info ''entries'' JNull) (JArr [])"

definition do_search_batch ::
    "bool \<Rightarrow> (string \<Rightarrow> nat \<Rightarrow> string + dict) \<Rightarrow> string \<Rightarrow> nat \<Rightarrow> nat \<Rightarrow> string + dict list" where
  "do_search_batch ytdlp_available extract_info q batch offset =
     (if \<not> ytdlp_available then Inl ''yt-dlp not available''
      else
        let total_n = offset + batch in
        case extract_info q total_n of
          Inl e \<Rightarrow> Inl e
        | Inr info \<Rightarrow>
            (case entries_of info of
               JArr entries \<Rightarrow> process_page (take batch (drop offset entries))
             | JStr cs \<Rightarrow> if take batch (drop offset cs) = [] then Inr [] else Inl ''AttributeError''
             | _ \<Rightarrow> Inl ''TypeError''))"

text \<open>
  \<^verbatim>\<open>on_search_batch(ok, result)\<close>: the batch is appended to the accumulated results and to the
  result list, a thumbnail worker is started for each result that has a thumbnail, and the
  offset becomes the number of accumulated results. (The batches come from
  \<^verbatim>\<open>_do_search_batch\<close>, so each result has the title and uploader the row's text reads.)
\<close>

definition thumbnail_jobs :: "dict list \<Rightarrow> effect list" where
  "thumbnail_jobs rs =
     map (\<lambda>r. StartWorker (FetchThumbnail (dget r ''thumbnail'' JNull)))
         (filter (\<lambda>r. truthy (dget r ''thumbnail'' JNull)) rs)"

definition on_search_batch :: "string + dict list \<Rightarrow> streamer \<Rightarrow> streamer \<times> effect list" where
  "on_search_batch res s =
     (case res of
        Inl e \<Rightarrow>
          (s, [SetEnabled SearchBtn True, LogMsg ''Search failed: %s'',
               ShowStatus ''Search error: {result}'' [JStr e] 5000])
      | Inr new_results \<Rightarrow>
          (let all_results = search_results s @ new_results in
           (s\<lparr>search_results := all_results,
              results_list := results_list s @ new_results,
              search_offset := length all_results\<rparr>,
            [SetEnabled SearchBtn True] @ thumbnail_jobs new_results
            @ [SetEnabled MoreBtn (length new_results \<ge> SEARCH_BATCH),
               ShowStatus ''Loaded {len(new_results)} results (total: {len(self.search_results)})''
                 [JNum (int (length new_results)), JNum (int (length all_results))] 3000])))"

text \<open>\<^verbatim>\<open>load_more_results()\<close> starts the worker for the next batch at the current offset.\<close>

definition load_more_results :: "streamer \<Rightarrow> effect list" where
  "load_more_results s = [StartWorker (SearchBatch (query s) SEARCH_BATCH (search_offset s))]"

section \<open>Playlist export and import\<close>

text \<open>The decimal text of an integer, as \<^verbatim>\<open>str\<close> and \<^verbatim>\<open>json.dumps\<close> write it.\<close>

function dec_nat :: "nat \<Rightarrow> string" where
  "dec_nat n =
     (if n < 10 then [char_of (48 + n)]
      else dec_nat (n div 10) @ [char_of (48 + n mod 10)])"
  by pat_completeness auto
termination
  by (relation "measure (\<lambda>n. n)") auto

definition dec :: "int \<Rightarrow> string" where
  "dec i = (if i < 0 then CHR ''-'' # dec_nat (nat (- i)) else dec_nat (nat i))"

text \<open>
  \<^verbatim>\<open>refresh_playlists()\<close> reads the store, clears the combo box, adds the placeholder and then
  the store's keys in sorted order; \<^verbatim>\<open>.keys()\<close> of a store that is not a dictionary raises
  when only the placeholder is there.
\<close>

definition refresh_playlists :: "files \<Rightarrow> outcome \<times> effect list" where
  "refresh_playlists fs =
     (case load_json_file PLAYLIST_DB (JObj []) fs of
        (JObj d, fs1, es) \<Rightarrow>
          (Returned, es @ [ComboItems (''Select playlist...'' # sort (map fst d))])
      | (_, fs1, es) \<Rightarrow> (Raised, es @ [ComboItems [''Select playlist...'']]))"

text \<open>
  \<^verbatim>\<open>export_selected_playlist()\<close>, with the combo box's text \<open>sel\<close> and the path \<open>path\<close> chosen in
  the file dialog (empty when the dialog was cancelled). The file written is
  \<^verbatim>\<open>{"name": sel, "tracks": payload}\<close>. \<^verbatim>\<open>db.get\<close> is outside the \<^verbatim>\<open>try\<close>.
\<close>

definition export_selected_playlist ::
    "(string \<Rightarrow> bool) \<Rightarrow> string \<Rightarrow> string \<Rightarrow> files \<Rightarrow> outcome \<times> files \<times> effect list" where
  "export_selected_playlist w sel path fs =
     (if sel = [] \<or> sel = ''Select playlist...'' then
        (Returned, fs, [ShowStatus ''Select a playlist to export'' [] 2000])
      else
        case load_json_file PLAYLIST_DB (JObj []) fs of (db, fs1, es1) \<Rightarrow>
          (case db of
             JObj d \<Rightarrow>
               (let payload = dget d sel JNull in
                if payload = JNull then
                  (Returned, fs1, es1 @ [ShowStatus ''Playlist not found'' [] 2000])
                else if path = [] then (Returned, fs1, es1)
                else if w path then
                  (Returned,
                   fs1(path \<mapsto> Json (JObj [(''name'', JStr sel), (''tracks'', payload)])),
                   es1 @ [ShowStatus ''Exported to: {path}'' [JStr path] 3000])
                else
                  (Returned, fs1,
                   es1 @ [LogMsg ''Export failed'', ShowStatus ''Export failed'' [] 3000]))
           | _ \<Rightarrow> (Raised, fs1, es1)))"

text \<open>
  \<^verbatim>\<open>db[name] = tracks\<close> on what \<^verbatim>\<open>load_json_file\<close> returned, and the key under which
  \<^verbatim>\<open>json.dumps\<close> then writes the name. On a dictionary the binding is replaced in place or added
  at the end; a name that is a list or a dictionary is unhashable. On a list the name must be
  an index in range (a boolean is one). Anything else raises. \<open>None\<close> is the exception.
\<close>

fun key_of :: "json \<Rightarrow> string option" where
  "key_of (JStr k) = Some k"
| "key_of JNull = Some ''null''"
| "key_of (JBool b) = Some (if b then ''true'' else ''false'')"
| "key_of (JNum n) = Some (dec n)"
| "key_of (JArr xs) = None"
| "key_of (JObj kvs) = None"

fun index_of :: "json \<Rightarrow> int option" where
  "index_of (JNum n) = Some n"
| "index_of (JBool b) = Some (if b then 1 else 0)"
| "index_of _ = None"

definition store_set :: "json \<Rightarrow> json \<Rightarrow> json \<Rightarrow> json option" where
  "store_set db name tracks =
     (case db of
        JObj d \<Rightarrow>
          (case key_of name of None \<Rightarrow> None | Some k \<Rightarrow> Some (JObj (AList.update k tracks d)))
      | JArr xs \<Rightarrow>
          (case index_of name of
             None \<Rightarrow> None
           | Some i \<Rightarrow>
               let n = int (length xs); j = (if i < 0 then n + i else i) in
               if 0 \<le> j \<and> j < n then Some (JArr (xs[nat j := tracks])) else None)
      | _ \<Rightarrow> None)"

text \<open>
  \<^verbatim>\<open>import_playlist()\<close>, with the path chosen in the file dialog and the clock reading \<open>now\<close>
  (\<^verbatim>\<open>int(time.time())\<close>). Everything after the dialog is inside \<^verbatim>\<open>try\<close>: an exception ends in
  the status message "Import failed".
\<close>

definition import_failed :: "effect list" where
  "import_failed = [LogMsg ''Import failed'', ShowStatus ''Import failed'' [] 3000]"

definition import_playlist ::
    "(string \<Rightarrow> bool) \<Rightarrow> int \<Rightarrow> string \<Rightarrow> files \<Rightarrow> files \<times> effect list" where
  "import_playlist w now path fs =
     (if path = [] then (fs, [])
      else
        case fs path of
          None \<Rightarrow> (fs, import_failed)
        | Some Garbage \<Rightarrow> (fs, import_failed)
        | Some (Json payload) \<Rightarrow>
            (let name = (case payload of JObj d \<Rightarrow> dget d ''name'' JNull
                                      | _ \<Rightarrow> JStr (''Imported_'' @ dec now));
                 tracks = (case payload of JObj d \<Rightarrow> dget d ''tracks'' JNull | _ \<Rightarrow> payload)
             in case tracks of
                  JArr ts \<Rightarrow>
                    (case load_json_file PLAYLIST_DB (JObj []) fs of (db, fs1, es1) \<Rightarrow>
                       (case store_set db name tracks of
                          None \<Rightarrow> (fs1, es1 @ import_failed)
                        | Some db' \<Rightarrow>
                            (case save_json_file w PLAYLIST_DB db' fs1 of (fs2, es2) \<Rightarrow>
                               (case refresh_playlists fs2 of
                                  (Returned, es3) \<Rightarrow>
                                    (fs2, es1 @ es2 @ es3
                                          @ [ShowStatus ''Imported: {name}'' [name] 3000])
                                | (Raised, es3) \<Rightarrow>
                                    (fs2, es1 @ es2 @ es3 @ import_failed)))))
                | _ \<Rightarrow> (fs, [ShowStatus ''Invalid playlist format'' [] 3000])))"

section \<open>Predicates and sample states\<close>

text \<open>The cursor invariant of the queue: the cursor is \<open>-1\<close> or the index of a queued track.\<close>

definition cursor_in_range :: "streamer \<Rightarrow> bool" where
  "cursor_in_range s = (- 1 \<le> queue_index s \<and> queue_index s < int (length (queue s)))"

text \<open>The queue list shows the queue: as many rows as tracks, the current row one of them.\<close>

definition widget_in_step :: "streamer \<Rightarrow> bool" where
  "widget_in_step s =
     (length (queue_list s) = length (queue s) \<and> queue_row s < int (length (queue_list s)))"

text \<open>An effect that starts the resolution of a track, and whether a handler started one.\<close>

fun is_resolution :: "effect \<Rightarrow> bool" where
  "is_resolution (StartWorker (ExtractOrDownload t i)) = True"
| "is_resolution _ = False"

definition starts_resolution :: "effect list \<Rightarrow> bool" where
  "starts_resolution es = (filter is_resolution es \<noteq> [])"

text \<open>
  What selecting the queued track at index \<open>t\<close> does from state \<open>s\<close>. When the track's title can
  be sliced: the cursor is set to \<open>t\<close> and nothing else in the state changes; the two transport
  controls are disabled, the loading message is shown, and one worker is started, resolving
  that track; the media player is not called. When the title cannot be sliced: the cursor is
  set all the same, the controls are disabled, and the exception escapes with no message and
  no worker.
\<close>

definition selects :: "streamer \<Rightarrow> int \<Rightarrow> outcome \<times> streamer \<times> effect list" where
  "selects s t =
     (if sliceable (title (queue s ! nat t)) then
        (Returned, s\<lparr>queue_index := t\<rparr>,
         [LogMsg ''Preparing: %s'',
          SetEnabled PlayPauseBtn False,
          SetEnabled PositionSlider False,
          ShowStatus ''Loading: {track.title[:50]}...'' [title (queue s ! nat t)] 0,
          StartWorker (ExtractOrDownload (queue s ! nat t) t)])
      else
        (Raised, s\<lparr>queue_index := t\<rparr>,
         [LogMsg ''Preparing: %s'',
          SetEnabled PlayPauseBtn False,
          SetEnabled PositionSlider False]))"

text \<open>A queue of three tracks built by three appends, and a store holding a one-track playlist.\<close>

definition sample_entry :: "string \<Rightarrow> dict" where
  "sample_entry i = [(''id'', JStr i), (''title'', JStr (''Song '' @ i))]"

definition three_tracks :: streamer where
  "three_tracks =
     fst (snd (queue_append (sample_entry ''c'')
       (fst (snd (queue_append (sample_entry ''b'')
         (fst (snd (queue_append (sample_entry ''a'') setup_data))))))))"

definition sample_store :: files where
  "sample_store = [PLAYLIST_DB \<mapsto> Json (JObj [(''mix'', JArr [JObj (sample_entry ''x'')])])]"

text \<open>
  The third track is playing (cursor \<open>2\<close>) when the playlist \<^verbatim>\<open>mix\<close> is loaded from the store.
\<close>

definition on_last_track :: streamer where
  "on_last_track = fst (snd (play_index 2 three_tracks))"

definition after_load :: "outcome \<times> streamer \<times> files \<times> effect list" where
  "after_load = load_selected_playlist ''mix'' sample_store on_last_track"

text \<open>
  Two tracks in a row resolve to a download, each leaving its own temporary file; then the
  window is closed. What is on disk after \<^verbatim>\<open>cleanup\<close>:
\<close>

definition two_downloads_then_close :: files where
  "two_downloads_then_close =
     (let fs1 = downloaded ''/tmp/ytp_1700000000.webm'' Map.empty;
          s1 = fst (on_url_ready True
                 (Inr (True, ''/tmp/ytp_1700000000.webm'', JStr ''Song a'', 1000, JNull)) 0
                 three_tracks);
          fs2 = downloaded ''/tmp/ytp_1700000200.webm'' fs1;
          s2 = fst (on_url_ready True
                 (Inr (True, ''/tmp/ytp_1700000200.webm'', JStr ''Song b'', 1000, JNull)) 1 s1)
      in fst (cleanup fs2 s2))"

text \<open>An extraction library with eleven results for every query, in a fixed order.\<close>

definition sample_hits :: "json list" where
  "sample_hits = map (\<lambda>i. JObj [(''id'', JNum i)]) [0, 1, 2, 3, 4, 5, 6, 7, 8, 9, 10]"

definition sample_extract_info :: "string \<Rightarrow> nat \<Rightarrow> string + dict" where
  "sample_extract_info q n = Inr [(''entries'', JArr (take n sample_hits))]"

text \<open>
  The playlist \<^verbatim>\<open>mix\<close> of the sample store exported to a file, every path being writable;
  and another file system, whose store holds one other playlist, that has received the file.
\<close>

definition export_path :: string where
  "export_path = ''/home/user/mix.json''"

definition exported_file :: content where
  "exported_file =
     Json (JObj [(''name'', JStr ''mix''), (''tracks'', JArr [JObj (sample_entry ''x'')])])"

definition exported_store :: files where
  "exported_store = sample_store(export_path \<mapsto> exported_file)"

definition other_store :: files where
  "other_store =
     [PLAYLIST_DB \<mapsto> Json (JObj [(''road trip'', JArr [])]), export_path \<mapsto> exported_file]"

section \<open>Properties of the persistence layer\<close>

text \<open>
  Claim C9. Loading a store file whose contents are not valid JSON returns the default
  structure (the default given, or the empty dictionary when none is given), returns normally
  with the failure logged, and leaves every file on disk, the corrupt one included, as it was.
\<close>

theorem load_json_file_corrupt:
  assumes "fs path = Some Garbage"
  shows "load_json_file path dflt fs =
           ((if dflt \<noteq> JNull then dflt else JObj []), fs, [LogMsg ''Failed to read {path}''])"
  using assms by (simp add: load_json_file_def)

theorem load_json_file_corrupt_witness:
  "[PLAYLIST_DB \<mapsto> Garbage] PLAYLIST_DB = Some Garbage \<and>
   load_json_file PLAYLIST_DB (JObj []) [PLAYLIST_DB \<mapsto> Garbage] =
     (JObj [], [PLAYLIST_DB \<mapsto> Garbage], [LogMsg ''Failed to read {path}''])"
  using load_json_file_corrupt [of "[PLAYLIST_DB \<mapsto> Garbage]" PLAYLIST_DB "JObj []"]
  by simp

section \<open>Properties of the queue cursor\<close>

text \<open>
  Appending, jumping, stepping forward or back, and rebuilding the queue from a list widget
  that is in step with it, all keep the cursor in range, whether they return or raise.
\<close>

lemma queue_append_cursor:
  "cursor_in_range s \<Longrightarrow> cursor_in_range (fst (snd (queue_append e s)))"
  by (simp add: cursor_in_range_def queue_append_def Let_def)

lemma play_index_cursor:
  "cursor_in_range s \<Longrightarrow> cursor_in_range (fst (snd (play_index idx s)))"
  by (simp add: cursor_in_range_def play_index_def split: prod.splits)

lemma play_next_cursor:
  "cursor_in_range s \<Longrightarrow> cursor_in_range (fst (snd (play_next rnd s)))"
  by (simp add: play_next_def Let_def play_index_cursor)

lemma play_prev_cursor:
  "cursor_in_range s \<Longrightarrow> cursor_in_range (fst (snd (play_prev s)))"
  by (simp add: play_prev_def Let_def play_index_cursor)

lemma rebuild_queue_from_widget_cursor:
  "cursor_in_range s \<Longrightarrow> widget_in_step s \<Longrightarrow> cursor_in_range (rebuild_queue_from_widget s)"
  by (simp add: cursor_in_range_def widget_in_step_def rebuild_queue_from_widget_def Let_def)

text \<open>
  Claim C1. The claim is that after every queue-mutating operation, playlist load included,
  the cursor is \<open>-1\<close> or below the queue's length. Loading a playlist clears the queue and
  appends the playlist's tracks, and the cursor keeps its old value: with the cursor on the
  third of three tracks (in range), loading a one-track playlist returns with a queue of
  length \<open>1\<close> and the cursor still \<open>2\<close>.
\<close>

theorem load_selected_playlist_stale_cursor:
  "cursor_in_range on_last_track \<and>
   fst after_load = Returned \<and>
   length (queue (fst (snd after_load))) = 1 \<and>
   queue_index (fst (snd after_load)) = 2 \<and>
   \<not> cursor_in_range (fst (snd after_load))"
  by (simp add: after_load_def on_last_track_def three_tracks_def sample_store_def
      sample_entry_def load_selected_playlist_def load_json_file_def queue_append_def
      play_index_def prepare_and_play_def entry_of_item_def track_of_entry_def Track_def
      setup_data_def dget_def cursor_in_range_def PLAYLIST_DB_def Let_def)

section \<open>Properties of navigation\<close>

text \<open>
  Claim C2, as stated: a navigation operation does not itself start resolution. It does:
  stepping to the next track from the first of three starts the worker that resolves the
  second.
\<close>

theorem play_next_starts_resolution:
  "starts_resolution (snd (snd (play_next 0 (fst (snd (play_index 0 three_tracks))))))"
  by (simp add: starts_resolution_def play_next_def play_index_def three_tracks_def
      sample_entry_def queue_append_def track_of_entry_def Track_def setup_data_def
      prepare_and_play_def dget_def Let_def)

text \<open>
  Claim C2, amended. From a state whose cursor is at least \<open>-1\<close>, each navigation operation
  either has no target and leaves the state as it is, starting nothing (\<^verbatim>\<open>play_index\<close> out of
  bounds; an empty queue; \<^verbatim>\<open>play_next\<close> past the last index without repeat All, which shows
  "End of queue"; \<^verbatim>\<open>play_prev\<close> from a cursor beyond the queue), or selects its target:
  \<^verbatim>\<open>play_index\<close> its argument; \<^verbatim>\<open>play_next\<close> a random index under shuffle, else the cursor plus
  one, else \<open>0\<close> under repeat All; \<^verbatim>\<open>play_prev\<close> the cursor minus one, else the last index under
  repeat All, else \<open>0\<close>. Selecting sets the cursor and itself starts the resolution of exactly
  the target track, without calling the player; when the target's title cannot be sliced it
  raises after setting the cursor, and starts nothing.
\<close>

theorem navigation_starts_resolution:
  assumes "- 1 \<le> queue_index s"
  shows "play_index idx s =
           (if 0 \<le> idx \<and> idx < int (length (queue s)) then selects s idx
            else (Returned, s, [])) \<and>
         play_next rnd s =
           (if queue s = [] then (Returned, s, [])
            else if shuffle_on s then selects s (int (rnd mod length (queue s)))
            else if queue_index s + 1 < int (length (queue s)) then selects s (queue_index s + 1)
            else if repeat_mode s = 1 then selects s 0
            else (Returned, s, [ShowStatus ''End of queue'' [] 2000])) \<and>
         play_prev s =
           (if queue s = [] then (Returned, s, [])
            else if 1 \<le> queue_index s then
              (if queue_index s - 1 < int (length (queue s)) then selects s (queue_index s - 1)
               else (Returned, s, []))
            else if repeat_mode s = 1 then selects s (int (length (queue s)) - 1)
            else selects s 0)"
proof -
  have jump: "play_index i s =
      (if 0 \<le> i \<and> i < int (length (queue s)) then selects s i else (Returned, s, []))" for i
    by (simp add: play_index_def prepare_and_play_def selects_def)
  have forward: "play_next rnd s =
           (if queue s = [] then (Returned, s, [])
            else if shuffle_on s then selects s (int (rnd mod length (queue s)))
            else if queue_index s + 1 < int (length (queue s)) then selects s (queue_index s + 1)
            else if repeat_mode s = 1 then selects s 0
            else (Returned, s, [ShowStatus ''End of queue'' [] 2000]))"
  proof (cases "queue s = []")
    case True
    then show ?thesis by (simp add: play_next_def)
  next
    case False
    then have "rnd mod length (queue s) < length (queue s)" by simp
    then have "\<not> length (queue s) \<le> rnd mod length (queue s)" by simp
    with False assms show ?thesis by (simp add: play_next_def jump Let_def)
  qed
  have backward: "play_prev s =
           (if queue s = [] then (Returned, s, [])
            else if 1 \<le> queue_index s then
              (if queue_index s - 1 < int (length (queue s)) then selects s (queue_index s - 1)
               else (Returned, s, []))
            else if repeat_mode s = 1 then selects s (int (length (queue s)) - 1)
            else selects s 0)"
    by (simp add: play_prev_def jump Let_def)
  from jump [of idx] forward backward show ?thesis by simp
qed

theorem navigation_starts_resolution_witness:
  "- 1 \<le> queue_index three_tracks \<and>
   play_index 1 three_tracks =
     (Returned, three_tracks\<lparr>queue_index := 1\<rparr>,
      [LogMsg ''Preparing: %s'',
       SetEnabled PlayPauseBtn False,
       SetEnabled PositionSlider False,
       ShowStatus ''Loading: {track.title[:50]}...'' [JStr ''Song b''] 0,
       StartWorker (ExtractOrDownload (track_of_entry (sample_entry ''b'')) 1)]) \<and>
   play_next 0 three_tracks = play_index 1 three_tracks \<and>
   play_prev three_tracks = selects three_tracks 0"
proof -
  have q: "queue three_tracks =
             [track_of_entry (sample_entry ''a''), track_of_entry (sample_entry ''b''),
              track_of_entry (sample_entry ''c'')]"
    and c: "queue_index three_tracks = 0"
    and m: "\<not> shuffle_on three_tracks" "repeat_mode three_tracks = 0"
    by (simp_all add: three_tracks_def queue_append_def sample_entry_def track_of_entry_def
        Track_def setup_data_def dget_def Let_def)
  have t: "title (track_of_entry (sample_entry ''b'')) = JStr ''Song b''"
    by (simp add: sample_entry_def track_of_entry_def Track_def dget_def)
  from navigation_starts_resolution [of three_tracks 1 0] show ?thesis
    by (simp add: q c m t selects_def)
qed

text \<open>
  Claim C4. On a non-empty queue with the cursor on the last index and shuffle off,
  \<^verbatim>\<open>play_next\<close> with repeat mode Off (\<open>0\<close>) returns with the state unchanged, its only effect
  the status message "End of queue"; with repeat mode All (\<open>1\<close>) it leaves the state with the
  cursor at \<open>0\<close> and nothing else changed. In that case it goes on to prepare the first track:
  it returns with the resolution started when the first track's title can be sliced for the
  loading message, and raises otherwise, the cursor being \<open>0\<close> either way.
\<close>

theorem play_next_on_last_index:
  assumes "queue s \<noteq> []" and "queue_index s = int (length (queue s)) - 1"
    and "\<not> shuffle_on s"
  shows "(repeat_mode s = 0 \<longrightarrow>
            play_next rnd s = (Returned, s, [ShowStatus ''End of queue'' [] 2000])) \<and>
         (repeat_mode s = 1 \<longrightarrow>
            fst (snd (play_next rnd s)) = s\<lparr>queue_index := 0\<rparr> \<and>
            queue_index (fst (snd (play_next rnd s))) = 0 \<and>
            play_next rnd s =
              (if sliceable (title (queue s ! 0)) then
                 (Returned, s\<lparr>queue_index := 0\<rparr>,
                  [LogMsg ''Preparing: %s'',
                   SetEnabled PlayPauseBtn False,
                   SetEnabled PositionSlider False,
                   ShowStatus ''Loading: {track.title[:50]}...'' [title (queue s ! 0)] 0,
                   StartWorker (ExtractOrDownload (queue s ! 0) 0)])
               else
                 (Raised, s\<lparr>queue_index := 0\<rparr>,
                  [LogMsg ''Preparing: %s'',
                   SetEnabled PlayPauseBtn False,
                   SetEnabled PositionSlider False])))"
  using assms by (simp add: play_next_def play_index_def prepare_and_play_def)

theorem play_next_on_last_index_witness:
  "queue on_last_track \<noteq> [] \<and>
   queue_index on_last_track = int (length (queue on_last_track)) - 1 \<and>
   \<not> shuffle_on on_last_track \<and> repeat_mode on_last_track = 0 \<and>
   play_next 7 on_last_track = (Returned, on_last_track, [ShowStatus ''End of queue'' [] 2000]) \<and>
   fst (snd (play_next 7 (on_last_track\<lparr>repeat_mode := 1\<rparr>)))
     = on_last_track\<lparr>repeat_mode := 1, queue_index := 0\<rparr> \<and>
   queue_index (fst (snd (play_next 7 (on_last_track\<lparr>repeat_mode := 1\<rparr>)))) = 0"
proof -
  have q: "queue on_last_track =
             [track_of_entry (sample_entry ''a''), track_of_entry (sample_entry ''b''),
              track_of_entry (sample_entry ''c'')]"
    and c: "queue_index on_last_track = 2"
    and m: "\<not> shuffle_on on_last_track" "repeat_mode on_last_track = 0"
    by (simp_all add: on_last_track_def three_tracks_def queue_append_def play_index_def
        prepare_and_play_def sample_entry_def track_of_entry_def Track_def setup_data_def
        dget_def Let_def)
  from play_next_on_last_index [of on_last_track 7]
    play_next_on_last_index [of "on_last_track\<lparr>repeat_mode := 1\<rparr>" 7]
  show ?thesis by (simp add: q c m)
qed

section \<open>Properties of the A/B loop\<close>

text \<open>When point A is set and not \<open>0\<close>, a point B at or before it is refused.\<close>

lemma set_point_b_rejected:
  assumes "point_a s = Some a" and "a \<noteq> 0" and "pos \<le> a"
  shows "set_point_b pos s = (s, [ShowStatus ''Point B must be after Point A'' [] 3000])"
  using assms by (simp add: set_point_b_def)

text \<open>
  Claim C3. The claim is that with point A set, setting point B at a position at or before A
  is rejected and B stays unset. With A set at position \<open>0\<close> (the start of the track) and the
  player still at \<open>0\<close>, \<^verbatim>\<open>set_point_b\<close> sets B to \<open>0\<close>: both points are set and B is not
  after A.
\<close>

theorem set_point_b_at_zero:
  "point_a (fst (set_point_a 0 setup_data)) = Some 0 \<and>
   point_b (fst (set_point_a 0 setup_data)) = None \<and>
   point_a (fst (set_point_b 0 (fst (set_point_a 0 setup_data)))) = Some 0 \<and>
   point_b (fst (set_point_b 0 (fst (set_point_a 0 setup_data)))) = Some 0"
  by (simp add: set_point_b_def set_point_a_def setup_data_def)

text \<open>
  Claim C10. When point A is unset, \<^verbatim>\<open>set_point_b\<close> sets B to the player's position without
  any check; the resulting state has B set and A unset.
\<close>

theorem set_point_b_without_a:
  assumes "point_a s = None"
  shows "set_point_b pos s =
           (s\<lparr>point_b := Some pos\<rparr>,
            [ShowStatus ''Point B set at {self._fmt_ms(pos)}'' [JNum pos] 2000]) \<and>
         point_a (fst (set_point_b pos s)) = None \<and>
         point_b (fst (set_point_b pos s)) = Some pos"
  using assms by (simp add: set_point_b_def)

theorem set_point_b_without_a_witness:
  "point_a setup_data = None \<and>
   point_a (fst (set_point_b 3000 setup_data)) = None \<and>
   point_b (fst (set_point_b 3000 setup_data)) = Some 3000"
  using set_point_b_without_a [of setup_data 3000]
  by (simp add: setup_data_def)

text \<open>
  Claim C5. When both loop points are set and a position event reports a position at or
  beyond B, the handler asks the player to seek to A and does nothing else: the state is
  unchanged and the seek is the only effect (no slider, time label or window title update).
\<close>

theorem on_position_changed_loops:
  assumes "point_a s = Some a" and "point_b s = Some b" and "b \<le> pos_ms"
  shows "on_position_changed player_dur has_window pos_ms s
           = (Returned, s, [PlayerSetPosition a])"
  using assms by (simp add: on_position_changed_def)

theorem on_position_changed_loops_witness:
  "point_a (three_tracks\<lparr>point_a := Some 1000, point_b := Some 5000\<rparr>) = Some 1000 \<and>
   point_b (three_tracks\<lparr>point_a := Some 1000, point_b := Some 5000\<rparr>) = Some 5000 \<and>
   (5000::int) \<le> 5200 \<and>
   on_position_changed 60000 True 5200 (three_tracks\<lparr>point_a := Some 1000, point_b := Some 5000\<rparr>)
     = (Returned, three_tracks\<lparr>point_a := Some 1000, point_b := Some 5000\<rparr>,
        [PlayerSetPosition 1000])"
  using on_position_changed_loops
          [of "three_tracks\<lparr>point_a := Some 1000, point_b := Some 5000\<rparr>" 1000 5000 5200 60000 True]
  by simp

section \<open>Properties of temporary files\<close>

text \<open>
  Claim C6. The claim is that the temporary file of the prior resolution is deleted when a
  new locator is applied, or at shutdown. \<^verbatim>\<open>_on_url_ready\<close> overwrites the field that names
  the file and \<^verbatim>\<open>cleanup\<close> unlinks only the file the field names last: after two downloads
  and the shutdown, the second file is gone and the first is still on disk.
\<close>

theorem superseded_temp_file_left_behind:
  "two_downloads_then_close ''/tmp/ytp_1700000000.webm'' = Some Garbage \<and>
   two_downloads_then_close ''/tmp/ytp_1700000200.webm'' = None"
  by (simp add: two_downloads_then_close_def downloaded_def on_url_ready_def cleanup_def
      now_playing_thumb_def highlight_playing_in_queue_def three_tracks_def queue_append_def
      sample_entry_def track_of_entry_def Track_def dget_def setup_data_def Let_def)

section \<open>Properties of playlist export and import\<close>

text \<open>
  Importing a file of the exported form into a store that is a dictionary: the store becomes
  that dictionary with the file's track list bound to the file's name, the combo box is
  refreshed, and the import of that name is reported.
\<close>

lemma import_exported_file:
  assumes "fs path = Some (Json (JObj [(''name'', JStr sel), (''tracks'', JArr tracks)]))"
    and "path \<noteq> []" and "w PLAYLIST_DB" and "fs PLAYLIST_DB = Some (Json (JObj d))"
  shows "import_playlist w now path fs =
           (fs(PLAYLIST_DB \<mapsto> Json (JObj (AList.update sel (JArr tracks) d))),
            [ComboItems (''Select playlist...'' # sort (map fst (AList.update sel (JArr tracks) d))),
             ShowStatus ''Imported: {name}'' [JStr sel] 3000])"
  using assms
  by (simp add: import_playlist_def dget_def load_json_file_def store_set_def
      save_json_file_def refresh_playlists_def)

text \<open>An export that reports success found the store a dictionary and wrote the file.\<close>

lemma export_reported:
  assumes "export_selected_playlist w sel path fs = (Returned, fs1, es1)"
    and "ShowStatus ''Exported to: {path}'' [JStr path] 3000 \<in> set es1"
  shows "\<exists>d. fs PLAYLIST_DB = Some (Json (JObj d)) \<and> path \<noteq> [] \<and>
             fs1 = fs(path \<mapsto> Json (JObj [(''name'', JStr sel), (''tracks'', dget d sel JNull)]))"
  using assms
  by (auto simp add: export_selected_playlist_def load_json_file_def Let_def dget_def
      split: if_splits option.splits content.splits json.splits)

text \<open>
  Claim C7. Let the store hold the track list \<open>tracks\<close> under the name \<open>sel\<close>, and let the
  export of \<open>sel\<close> to \<open>path\<close> report success. Then importing the exported file, into any file
  system \<open>fs2\<close> that holds it at \<open>path\<close> and whose (writable) store is any dictionary \<open>d2\<close>,
  leaves a store that is \<open>d2\<close> with exactly that track list, in the same order, bound to that
  name, and reports the import of that name; the store then holds \<open>tracks\<close> under \<open>sel\<close>.
  The file system the export left is itself such a file system, so the import right after the
  export does the same to it. (The snapshots in the store carry no format list and no raw
  metadata, and the export writes them as they are.)
\<close>

theorem export_import_roundtrip:
  assumes stored: "fs PLAYLIST_DB = Some (Json (JObj db))" "map_of db sel = Some (JArr tracks)"
    and exported: "export_selected_playlist w sel path fs = (Returned, fs1, es1)"
                  "ShowStatus ''Exported to: {path}'' [JStr path] 3000 \<in> set es1"
    and carried: "fs2 path = fs1 path"
    and store: "fs2 PLAYLIST_DB = Some (Json (JObj d2))"
    and writable: "w PLAYLIST_DB"
  shows "import_playlist w now path fs2 =
           (fs2(PLAYLIST_DB \<mapsto> Json (JObj (AList.update sel (JArr tracks) d2))),
            [ComboItems (''Select playlist...''
                          # sort (map fst (AList.update sel (JArr tracks) d2))),
             ShowStatus ''Imported: {name}'' [JStr sel] 3000]) \<and>
         map_of (AList.update sel (JArr tracks) d2) sel = Some (JArr tracks) \<and>
         (\<exists>d1. fs1 PLAYLIST_DB = Some (Json (JObj d1)) \<and>
            import_playlist w now path fs1 =
              (fs1(PLAYLIST_DB \<mapsto> Json (JObj (AList.update sel (JArr tracks) d1))),
               [ComboItems (''Select playlist...''
                             # sort (map fst (AList.update sel (JArr tracks) d1))),
                ShowStatus ''Imported: {name}'' [JStr sel] 3000]))"
proof -
  from export_reported [OF exported] stored obtain
    p: "path \<noteq> []" and
    fs1: "fs1 = fs(path \<mapsto> Json (JObj [(''name'', JStr sel), (''tracks'', JArr tracks)]))"
    by (auto simp add: dget_def)
  have written: "fs1 path = Some (Json (JObj [(''name'', JStr sel), (''tracks'', JArr tracks)]))"
    by (simp add: fs1)
  then have received:
    "fs2 path = Some (Json (JObj [(''name'', JStr sel), (''tracks'', JArr tracks)]))"
    using carried by simp
  obtain d1 where d1: "fs1 PLAYLIST_DB = Some (Json (JObj d1))"
    using fs1 stored by (cases "path = PLAYLIST_DB") auto
  have there: "import_playlist w now path fs2 =
           (fs2(PLAYLIST_DB \<mapsto> Json (JObj (AList.update sel (JArr tracks) d2))),
            [ComboItems (''Select playlist...''
                          # sort (map fst (AList.update sel (JArr tracks) d2))),
             ShowStatus ''Imported: {name}'' [JStr sel] 3000])"
    by (rule import_exported_file [where fs = fs2 and w = w and path = path and now = now,
          OF received p writable store])
  have here: "import_playlist w now path fs1 =
           (fs1(PLAYLIST_DB \<mapsto> Json (JObj (AList.update sel (JArr tracks) d1))),
            [ComboItems (''Select playlist...''
                          # sort (map fst (AList.update sel (JArr tracks) d1))),
             ShowStatus ''Imported: {name}'' [JStr sel] 3000])"
    by (rule import_exported_file [where fs = fs1 and w = w and path = path and now = now,
          OF written p writable d1])
  have bound: "map_of (AList.update sel (JArr tracks) d2) sel = Some (JArr tracks)"
    by (simp add: update_conv')
  from there bound d1 here show ?thesis by blast
qed

theorem export_import_roundtrip_witness:
  "sample_store PLAYLIST_DB = Some (Json (JObj [(''mix'', JArr [JObj (sample_entry ''x'')])])) \<and>
   map_of [(''mix'', JArr [JObj (sample_entry ''x'')])] ''mix''
     = Some (JArr [JObj (sample_entry ''x'')]) \<and>
   export_selected_playlist (\<lambda>p. True) ''mix'' export_path sample_store
     = (Returned, exported_store, [ShowStatus ''Exported to: {path}'' [JStr export_path] 3000]) \<and>
   other_store export_path = exported_store export_path \<and>
   other_store PLAYLIST_DB = Some (Json (JObj [(''road trip'', JArr [])])) \<and>
   fst (import_playlist (\<lambda>p. True) 1700000000 export_path other_store)
     = other_store(PLAYLIST_DB \<mapsto>
         Json (JObj [(''road trip'', JArr []), (''mix'', JArr [JObj (sample_entry ''x'')])]))"
proof -
  have stored:
    "sample_store PLAYLIST_DB = Some (Json (JObj [(''mix'', JArr [JObj (sample_entry ''x'')])]))"
    by (simp add: sample_store_def)
  have bound: "map_of [(''mix'', JArr [JObj (sample_entry ''x'')])] ''mix''
                 = Some (JArr [JObj (sample_entry ''x'')])"
    by simp
  have exported: "export_selected_playlist (\<lambda>p. True) ''mix'' export_path sample_store
     = (Returned, exported_store, [ShowStatus ''Exported to: {path}'' [JStr export_path] 3000])"
    by (simp add: export_selected_playlist_def load_json_file_def sample_store_def dget_def
        exported_store_def exported_file_def export_path_def PLAYLIST_DB_def)
  have reported: "ShowStatus ''Exported to: {path}'' [JStr export_path] 3000
                    \<in> set [ShowStatus ''Exported to: {path}'' [JStr export_path] 3000]"
    by simp
  have carried: "other_store export_path = exported_store export_path"
    by (simp add: other_store_def exported_store_def)
  have store: "other_store PLAYLIST_DB = Some (Json (JObj [(''road trip'', JArr [])]))"
    by (simp add: other_store_def export_path_def PLAYLIST_DB_def)
  from export_import_roundtrip [OF stored bound exported reported carried store, of 1700000000]
  show ?thesis using stored bound exported carried store by simp
qed

section \<open>Properties of search pagination\<close>

text \<open>A page that processes without error is processed piece by piece.\<close>

lemma process_page_append:
  "process_page (xs @ ys) = Inr rs \<Longrightarrow>
     \<exists>r1 r2. process_page xs = Inr r1 \<and> process_page ys = Inr r2 \<and> rs = r1 @ r2"
proof (induction xs arbitrary: rs rule: process_page.induct)
  case 1
  then show ?case by simp
next
  case (2 e es)
  from "2.prems" obtain ps
    where ps: "process_page (es @ ys) = Inr ps" and rs: "rs = process_entry e # ps"
    by (auto split: sum.splits)
  from "2.IH" [OF ps] show ?case using rs by auto
qed simp_all

text \<open>
  Claim C8. Let the extraction library be available and answer the requests for the first
  10 and the first 20 results of a query with the same ordering (the entries of the first
  answer are the first ten entries of the second), and let a single batch request of total 20
  (batch 20 at offset 0) yield the list \<open>rs\<close>. Then the batch at offset 0 followed by the
  batch at offset 10, each of size 10 and each accumulated by \<^verbatim>\<open>on_search_batch\<close> starting
  from no results, accumulate exactly \<open>rs\<close>.
\<close>

theorem two_batches_equal_one_request:
  assumes avail: "ytdlp_available"
    and i10: "extract_info q 10 = Inr info10" and i20: "extract_info q 20 = Inr info20"
    and stable: "entries_of info20 = JArr es" "entries_of info10 = JArr (take 10 es)"
    and single: "do_search_batch ytdlp_available extract_info q 20 0 = Inr rs"
    and fresh: "search_results s = []"
  shows "search_results
           (fst (on_search_batch (do_search_batch ytdlp_available extract_info q 10 10)
              (fst (on_search_batch (do_search_batch ytdlp_available extract_info q 10 0) s))))
         = rs"
proof -
  have pieces: "take 20 es = take 10 es @ take 10 (drop 10 es)"
    using take_add [of 10 10 es] by simp
  have "process_page (take 20 es) = Inr rs"
    using single avail i20 stable by (simp add: do_search_batch_def)
  then obtain r1 r2 where r1: "process_page (take 10 es) = Inr r1"
    and r2: "process_page (take 10 (drop 10 es)) = Inr r2" and rs: "rs = r1 @ r2"
    using process_page_append [of "take 10 es" "take 10 (drop 10 es)" rs] pieces by auto
  have b1: "do_search_batch ytdlp_available extract_info q 10 0 = Inr r1"
    using avail i10 stable r1 by (simp add: do_search_batch_def)
  have b2: "do_search_batch ytdlp_available extract_info q 10 10 = Inr r2"
    using avail i20 stable r2 by (simp add: do_search_batch_def)
  show ?thesis
    by (simp add: b1 b2 on_search_batch_def fresh rs Let_def)
qed

theorem two_batches_equal_one_request_witness:
  "sample_extract_info ''lofi'' 10 = Inr [(''entries'', JArr (take 10 sample_hits))] \<and>
   sample_extract_info ''lofi'' 20 = Inr [(''entries'', JArr (take 20 sample_hits))] \<and>
   entries_of [(''entries'', JArr (take 20 sample_hits))] = JArr sample_hits \<and>
   entries_of [(''entries'', JArr (take 10 sample_hits))] = JArr (take 10 sample_hits) \<and>
   do_search_batch True sample_extract_info ''lofi'' 20 0
     = Inr (map (\<lambda>i. process_entry [(''id'', JNum i)]) [0, 1, 2, 3, 4, 5, 6, 7, 8, 9, 10]) \<and>
   search_results setup_data = [] \<and>
   search_results
     (fst (on_search_batch (do_search_batch True sample_extract_info ''lofi'' 10 10)
        (fst (on_search_batch (do_search_batch True sample_extract_info ''lofi'' 10 0)
           setup_data))))
     = map (\<lambda>i. process_entry [(''id'', JNum i)]) [0, 1, 2, 3, 4, 5, 6, 7, 8, 9, 10]"
proof -
  have i10: "sample_extract_info ''lofi'' 10 = Inr [(''entries'', JArr (take 10 sample_hits))]"
    and i20: "sample_extract_info ''lofi'' 20 = Inr [(''entries'', JArr (take 20 sample_hits))]"
    by (simp_all add: sample_extract_info_def)
  have e20: "entries_of [(''entries'', JArr (take 20 sample_hits))] = JArr sample_hits"
    by (simp add: entries_of_def dget_def py_or_def sample_hits_def)
  have e10: "entries_of [(''entries'', JArr (take 10 sample_hits))] = JArr (take 10 sample_hits)"
    by (simp add: entries_of_def dget_def py_or_def sample_hits_def)
  have single: "do_search_batch True sample_extract_info ''lofi'' 20 0
     = Inr (map (\<lambda>i. process_entry [(''id'', JNum i)]) [0, 1, 2, 3, 4, 5, 6, 7, 8, 9, 10])"
    by (simp add: do_search_batch_def i20 e20) (simp add: sample_hits_def)
  have fresh: "search_results setup_data = []"
    by (simp add: setup_data_def)
  from two_batches_equal_one_request [OF TrueI i10 i20 e20 e10 single fresh]
  show ?thesis using i10 i20 e20 e10 single fresh by simp
qed

end
